theory Spec2Isabelle
  imports Complex_Main "HOL-Library.Multiset"
begin

section \<open>Errors raised by the notebook's own expressions\<close>

text \<open>
  \<open>AnalysisException\<close>: a data frame is asked for a column it does not have.
  \<open>AttributeError\<close>: a lambda reads a field that the row does not carry.
  \<open>IndexError\<close>: an array is indexed outside its bounds.
  \<open>IllegalArgumentException\<close>: an estimator or a fitted model is given a frame without
  its input column.
  \<open>Py4JJavaError\<close>: any other failure of a Spark job.
\<close>

datatype error = AnalysisException | AttributeError | IndexError
  | IllegalArgumentException | Py4JJavaError

section \<open>Session records and the personality indicator columns\<close>

text \<open>
  The data frame handed to \<open>get_dummies\<close> is built by
  \<^verbatim>\<open>toDF(('date', 'ip', 'entry_point', 'rates', 'end_point', 'personality'))\<close>;
  every column holds a string.
\<close>

record session_row =
  date :: string
  ip :: string
  entry_point :: string
  rates :: string
  end_point :: string
  personality :: string

definition column :: "string \<Rightarrow> session_row \<Rightarrow> string option" where
  "column name r =
     (if name = ''date'' then Some (date r)
      else if name = ''ip'' then Some (ip r)
      else if name = ''entry_point'' then Some (entry_point r)
      else if name = ''rates'' then Some (rates r)
      else if name = ''end_point'' then Some (end_point r)
      else if name = ''personality'' then Some (personality r)
      else None)"

text \<open>
  Python's \<^verbatim>\<open>s.split(sep)\<close> for a one-character separator: every occurrence of the
  separator ends a piece, so a string with \<open>n\<close> separators has \<open>n + 1\<close> pieces, and
  the empty string has the single piece \<open>''''\<close>.
\<close>

fun str_split :: "char \<Rightarrow> string \<Rightarrow> string list" where
  "str_split sep [] = [[]]"
| "str_split sep (c # cs) =
     (if c = sep then [] # str_split sep cs
      else (case str_split sep cs of
              w # ws \<Rightarrow> (c # w) # ws
            | [] \<Rightarrow> [[c]]))"

text \<open>
  \<^verbatim>\<open>
  def get_dummies(df, col_name):
      col_attributes = set(df.select(col_name).distinct().rdd
                             .map(lambda row: row.personality.split(' '))
                             .flatMap(lambda x: x)
                             .collect())
      col_expr = [F.when(F.col(col_name) == ty, 1).otherwise(0).alias(ty)
                  for ty in col_attributes]
      return df.select("*", *col_expr)
  \<close>
  The lambda reads the field \<open>personality\<close> of rows that carry only the column
  \<open>col_name\<close>, so any other column name fails as soon as there is a row to map.
  A Python set has no fixed iteration order; \<open>remdups\<close> picks one, and nothing proved
  below depends on which.
\<close>

definition col_attributes :: "session_row list \<Rightarrow> string list" where
  "col_attributes df =
     remdups (concat (map (str_split CHR '' '') (remdups (map personality df))))"

definition col_expr :: "string \<Rightarrow> string \<Rightarrow> session_row \<Rightarrow> int" where
  "col_expr col_name ty r = (if column col_name r = Some ty then 1 else 0)"

definition get_dummies ::
  "session_row list \<Rightarrow> string \<Rightarrow> error + (session_row \<times> (string \<times> int) list) list" where
  "get_dummies df col_name =
     (if col_name \<notin> set [''date'', ''ip'', ''entry_point'', ''rates'', ''end_point'', ''personality'']
      then Inl AnalysisException
      else if col_name \<noteq> ''personality'' \<and> df \<noteq> [] then Inl AttributeError
      else Inr (map (\<lambda>r. (r, map (\<lambda>ty. (ty, col_expr col_name ty r)) (col_attributes df))) df))"

text \<open>
  Two rows of the session file of the last quarter of 1996, as the notebook displays
  them (the display cuts long fields), with the personality strings that
  \<open>get_personalities\<close> joins from their rates; the two labels of the second row are in
  one of the two orders a Python set may give.
\<close>

definition session_1 :: session_row where
  "session_1 = \<lparr>date = ''01/Oct/1996:10:08:41 '', ip = ''keeper.tribune.com'',
     entry_point = ''0'', rates = ''369N 369P'', end_point = ''-1'',
     personality = ''traditional''\<rparr>"

definition session_20 :: session_row where
  "session_20 = \<lparr>date = ''02/Oct/1996:08:44...'', ip = ''tyrannosaurus.csd...'',
     entry_point = ''87C'', rates = ''122S 627Q'', end_point = ''-1'',
     personality = ''quiet creative''\<rparr>"

section \<open>The most similar items of a row of the similarity matrix\<close>

text \<open>
  The notebooks rank with the expression
  \<^verbatim>\<open>cosine_similarity[q].argsort()[::-1][:k]\<close>
  on the array held by the classifier. Only the order of the entries matters here, so
  the entries are of any linearly ordered type (as 64-bit floats other than NaN are).

  \<open>argsort\<close> returns the positions of the array in ascending order of their entries.
  numpy documents its default sort kind as not stable, so the order it leaves among
  equal entries is not fixed; the insertion sort \<open>sort_key\<close> leaves one such order.
  The general theorems below use only that the result is an ascending arrangement of
  all positions.
\<close>

definition argsort :: "'a::linorder list \<Rightarrow> nat list" where
  "argsort a = sort_key (\<lambda>i. a ! i) [0..<length a]"

text \<open>Python's \<^verbatim>\<open>xs[:k]\<close>: a negative \<open>k\<close> counts from the end.\<close>

definition slice_to :: "int \<Rightarrow> 'b list \<Rightarrow> 'b list" where
  "slice_to k xs =
     (if 0 \<le> k then take (nat k) xs else take (nat (int (length xs) + k)) xs)"

text \<open>
  \<^verbatim>\<open>a[q]\<close> on the first axis of an array: a negative \<open>q\<close> counts from the end, and
  a position outside the array raises.
\<close>

definition getitem :: "'b list \<Rightarrow> int \<Rightarrow> error + 'b" where
  "getitem a q =
     (let n = int (length a); j = (if q < 0 then n + q else q)
      in if 0 \<le> j \<and> j < n then Inr (a ! nat j) else Inl IndexError)"

definition most_similar :: "'a::linorder list list \<Rightarrow> int \<Rightarrow> int \<Rightarrow> error + nat list" where
  "most_similar sim q k =
     (case getitem sim q of
        Inl e \<Rightarrow> Inl e
      | Inr row \<Rightarrow> Inr (slice_to k (rev (argsort row))))"

text \<open>
  The cosine similarities of four items: the first three share one term out of two
  with each other, the fourth shares none.
\<close>

definition example_similarity :: "real list list" where
  "example_similarity =
     [[1, 1/2, 1/2, 0],
      [1/2, 1, 1/2, 0],
      [1/2, 1/2, 1, 0],
      [0, 0, 0, 1]]"

text \<open>The cosine similarities of three items, no two entries of a row equal.\<close>

definition example_distinct :: "real list list" where
  "example_distinct =
     [[1, 1/2, 1/4],
      [1/2, 1, 1/3],
      [1/4, 1/3, 1]]"

section \<open>The classifier\<close>

text \<open>
  \<open>CosinusSimilarityClassifier\<close> only chains Spark's estimators and distributed
  matrices, which are no code of this repository. They are the fields of the record
  \<open>pyspark\<close>, one per call of the class; a call that raises returns the error:
  \<^item> \<open>CountVectorizer_fit inputCol outputCol df\<close> is
    \<^verbatim>\<open>proc.CountVectorizer(inputCol=.., outputCol=..).fit(df)\<close>, and
    \<open>CountVectorizer_transform\<close> the fitted model's \<^verbatim>\<open>transform\<close>;
  \<^item> \<open>IDF_fit\<close>, \<open>IDF_transform\<close>, \<open>Normalizer\<close> and \<open>Normalizer_transform\<close>
    likewise;
  \<^item> \<open>select cols df\<close> is \<^verbatim>\<open>df.select(*cols)\<close>, and
    \<open>rdd_map_IndexedRow f g df\<close> is
    \<^verbatim>\<open>df.rdd.map(lambda row: IndexedRow(row.f, row.g.toArray()))\<close>
    on a frame whose rows carry the fields \<open>f\<close> and \<open>g\<close>;
  \<^item> \<open>toBlockMatrix\<close> is \<^verbatim>\<open>IndexedRowMatrix(rows).toBlockMatrix()\<close>,
    \<open>multiply\<close> and \<open>transpose\<close> are the block matrix's methods, and \<open>toArray\<close> is
    \<^verbatim>\<open>m.toLocalMatrix().toArray()\<close>.
\<close>

record ('df, 'cv, 'idf, 'nrm, 'rdd, 'bm, 'arr) pyspark =
  CountVectorizer_fit :: "string \<Rightarrow> string \<Rightarrow> 'df \<Rightarrow> error + 'cv"
  CountVectorizer_transform :: "'cv \<Rightarrow> 'df \<Rightarrow> error + 'df"
  IDF_fit :: "string \<Rightarrow> string \<Rightarrow> 'df \<Rightarrow> error + 'idf"
  IDF_transform :: "'idf \<Rightarrow> 'df \<Rightarrow> error + 'df"
  Normalizer :: "string \<Rightarrow> string \<Rightarrow> 'nrm"
  Normalizer_transform :: "'nrm \<Rightarrow> 'df \<Rightarrow> error + 'df"
  select :: "string list \<Rightarrow> 'df \<Rightarrow> error + 'df"
  rdd_map_IndexedRow :: "string \<Rightarrow> string \<Rightarrow> 'df \<Rightarrow> error + 'rdd"
  toBlockMatrix :: "'rdd \<Rightarrow> error + 'bm"
  multiply :: "'bm \<Rightarrow> 'bm \<Rightarrow> error + 'bm"
  transpose :: "'bm \<Rightarrow> error + 'bm"
  toArray :: "'bm \<Rightarrow> error + 'arr"

text \<open>The fields of the object; \<^verbatim>\<open>__init__\<close> sets each to \<^verbatim>\<open>None\<close>.\<close>

record ('cv, 'idf, 'nrm, 'arr) CosinusSimilarityClassifier =
  normalizer :: "'nrm option"
  cosine_similarity :: "'arr option"
  count_vectorizer :: "'cv option"
  idfModel :: "'idf option"

definition init :: "('cv, 'idf, 'nrm, 'arr) CosinusSimilarityClassifier" where
  "init = \<lparr>normalizer = None, cosine_similarity = None,
            count_vectorizer = None, idfModel = None\<rparr>"

text \<open>
  \<^verbatim>\<open>
  def _fit_tf_idf(self, df, tokens_col, output_col):
      self.count_vectorizer = proc.CountVectorizer(inputCol=tokens_col, outputCol='tf').fit(df)
      tf_df = self.count_vectorizer.transform(tokens_df)
      self.idfModel = proc.IDF(inputCol="tf", outputCol="idf").fit(tf_df)
      idf_df = self.idfModel.transform(tf_df)
      self.normalizer = proc.Normalizer(inputCol='idf', outputCol=output_col)
      return self.normalizer.transform(idf_df)
  \<close>
  \<open>tokens_df\<close> is no parameter of the method: it is the variable of that name of the
  notebook's module, read when the method runs. The model takes it as the argument
  after the library, and returns the object beside the method's result: when a call
  raises, the object keeps the attributes assigned before it.
\<close>

definition fit_tf_idf ::
  "('df, 'cv, 'idf, 'nrm, 'rdd, 'bm, 'arr) pyspark \<Rightarrow> 'df
   \<Rightarrow> ('cv, 'idf, 'nrm, 'arr) CosinusSimilarityClassifier \<Rightarrow> 'df \<Rightarrow> string \<Rightarrow> string
   \<Rightarrow> ('cv, 'idf, 'nrm, 'arr) CosinusSimilarityClassifier \<times> (error + 'df)" where
  "fit_tf_idf spark tokens_df self df tokens_col output_col =
     (case CountVectorizer_fit spark tokens_col ''tf'' df of
        Inl e \<Rightarrow> (self, Inl e)
      | Inr cv \<Rightarrow>
          (let self = self\<lparr>count_vectorizer := Some cv\<rparr> in
           case CountVectorizer_transform spark cv tokens_df of
             Inl e \<Rightarrow> (self, Inl e)
           | Inr tf_df \<Rightarrow>
               (case IDF_fit spark ''tf'' ''idf'' tf_df of
                  Inl e \<Rightarrow> (self, Inl e)
                | Inr idf \<Rightarrow>
                    (let self = self\<lparr>idfModel := Some idf\<rparr> in
                     case IDF_transform spark idf tf_df of
                       Inl e \<Rightarrow> (self, Inl e)
                     | Inr idf_df \<Rightarrow>
                         (let nrm = Normalizer spark ''idf'' output_col;
                              self = self\<lparr>normalizer := Some nrm\<rparr>
                          in (self, Normalizer_transform spark nrm idf_df))))))"

text \<open>
  \<^verbatim>\<open>
  def _fit_matrix_similarity(self, df, id_col, embedding_col):
      mat = IndexedRowMatrix(df.select(id_col, embedding_col)
                               .rdd.map(lambda row: IndexedRow(row.id, row.norm.toArray())))
                               .toBlockMatrix()
      dot = mat.multiply(mat.transpose())
      self.cosine_similarity = dot.toLocalMatrix().toArray()
      return self
  \<close>
  The lambda reads the fields \<open>id\<close> and \<open>norm\<close> whatever the two column names are,
  and the selected rows carry the fields \<open>id_col\<close> and \<open>embedding_col\<close>: with any other
  name the lambda raises when the rows are mapped, and \<open>cosine_similarity\<close> is not
  assigned. The second component is the error of a call that raises, \<open>None\<close> when the
  method returns.
\<close>

definition fit_matrix_similarity ::
  "('df, 'cv, 'idf, 'nrm, 'rdd, 'bm, 'arr) pyspark
   \<Rightarrow> ('cv, 'idf, 'nrm, 'arr) CosinusSimilarityClassifier \<Rightarrow> 'df \<Rightarrow> string \<Rightarrow> string
   \<Rightarrow> ('cv, 'idf, 'nrm, 'arr) CosinusSimilarityClassifier \<times> error option" where
  "fit_matrix_similarity spark self df id_col embedding_col =
     (case select spark [id_col, embedding_col] df of
        Inl e \<Rightarrow> (self, Some e)
      | Inr selected \<Rightarrow>
          if id_col \<noteq> ''id'' \<or> embedding_col \<noteq> ''norm'' then (self, Some AttributeError)
          else
            (case rdd_map_IndexedRow spark ''id'' ''norm'' selected of
               Inl e \<Rightarrow> (self, Some e)
             | Inr rows \<Rightarrow>
                 (case toBlockMatrix spark rows of
                    Inl e \<Rightarrow> (self, Some e)
                  | Inr mat \<Rightarrow>
                      (case transpose spark mat of
                         Inl e \<Rightarrow> (self, Some e)
                       | Inr mat_t \<Rightarrow>
                           (case multiply spark mat mat_t of
                              Inl e \<Rightarrow> (self, Some e)
                            | Inr dot \<Rightarrow>
                                (case toArray spark dot of
                                   Inl e \<Rightarrow> (self, Some e)
                                 | Inr arr \<Rightarrow>
                                     (self\<lparr>cosine_similarity := Some arr\<rparr>, None)))))))"

text \<open>
  \<^verbatim>\<open>
  def fit(self, df, tokens_col, id_col):
      df = self._fit_tf_idf(df, tokens_col=tokens_col, output_col='norm')
      self._fit_matrix_similarity(df, id_col=id_col, embedding_col='norm')
  \<close>
\<close>

definition fit ::
  "('df, 'cv, 'idf, 'nrm, 'rdd, 'bm, 'arr) pyspark \<Rightarrow> 'df
   \<Rightarrow> ('cv, 'idf, 'nrm, 'arr) CosinusSimilarityClassifier \<Rightarrow> 'df \<Rightarrow> string \<Rightarrow> string
   \<Rightarrow> ('cv, 'idf, 'nrm, 'arr) CosinusSimilarityClassifier \<times> error option" where
  "fit spark tokens_df self df tokens_col id_col =
     (case fit_tf_idf spark tokens_df self df tokens_col ''norm'' of
        (self, Inl e) \<Rightarrow> (self, Some e)
      | (self, Inr df) \<Rightarrow> fit_matrix_similarity spark self df id_col ''norm'')"

text \<open>
  A small instance of the library record, to run \<open>fit\<close> on concrete frames: a row is an
  identifier, a token list and a vector; the vocabulary is the distinct tokens in
  first-seen order; the vector holds the token counts; the weighting and the
  normalisation leave the frame as it is; the matrices are lists of integer rows.
  It stands in for no behaviour of the real estimators. The frame \<open>df_g\<close> below has
  one token per row and no token in two rows, so that its count vectors are already
  unit vectors with no common term.
\<close>

type_synonym stub_df = "(nat \<times> string list \<times> int list) list"

definition stub_spark ::
  "(stub_df, string list, unit, unit, (nat \<times> int list) list, int list list, int list list) pyspark" where
  "stub_spark = \<lparr>
     CountVectorizer_fit = (\<lambda>inputCol outputCol df.
       if inputCol = ''tokens'' then Inr (remdups (concat (map (\<lambda>(i, toks, v). toks) df)))
       else Inl IllegalArgumentException),
     CountVectorizer_transform = (\<lambda>voc df.
       Inr (map (\<lambda>(i, toks, v). (i, toks, map (\<lambda>w. int (count_list toks w)) voc)) df)),
     IDF_fit = (\<lambda>inputCol outputCol df. Inr ()),
     IDF_transform = (\<lambda>m df. Inr df),
     Normalizer = (\<lambda>inputCol outputCol. ()),
     Normalizer_transform = (\<lambda>m df. Inr df),
     select = (\<lambda>cols df.
       if set cols \<subseteq> {''id'', ''tokens'', ''norm''} then Inr df else Inl AnalysisException),
     rdd_map_IndexedRow = (\<lambda>f g df. Inr (map (\<lambda>(i, toks, v). (i, v)) df)),
     toBlockMatrix = (\<lambda>rows. if rows = [] then Inl Py4JJavaError else Inr (map snd rows)),
     multiply = (\<lambda>A B.
       Inr (map (\<lambda>r. map (\<lambda>c. sum_list (map2 (*) r c)) (List.transpose B)) A)),
     transpose = (\<lambda>A. Inr (List.transpose A)),
     toArray = (\<lambda>m. Inr m)\<rparr>"

definition df_a :: stub_df where
  "df_a = [(0, [''Pizza'', ''Italian''], [])]"

definition df_b :: stub_df where
  "df_b = [(0, [''Pizza'', ''Italian'', ''Pizza''], []), (1, [''Italian''], []), (2, [], [])]"

definition df_g :: stub_df where
  "df_g = [(0, [''Pizza''], []), (1, [''Italian''], [])]"

section \<open>Properties of the indicator columns\<close>

lemma str_split_not_Nil: "str_split sep s \<noteq> []"
  by (induction s) (auto split: list.splits)

lemma str_split_no_sep: "w \<in> set (str_split sep s) \<Longrightarrow> sep \<notin> set w"
proof (induction s arbitrary: w)
  case Nil
  then show ?case by simp
next
  case (Cons c cs)
  show ?case
  proof (cases "c = sep")
    case True
    with Cons show ?thesis by auto
  next
    case False
    obtain v vs where vs: "str_split sep cs = v # vs"
      using str_split_not_Nil [of sep cs] by (cases "str_split sep cs") auto
    with Cons.prems False have "w = c # v \<or> w \<in> set vs" by auto
    then show ?thesis
    proof
      assume "w = c # v"
      moreover have "sep \<notin> set v" using Cons.IH [of v] vs by simp
      ultimately show ?thesis using False by auto
    next
      assume "w \<in> set vs"
      then show ?thesis using Cons.IH [of w] vs by simp
    qed
  qed
qed

lemma length_str_split: "length (str_split sep s) = Suc (count_list s sep)"
proof (induction s)
  case Nil
  then show ?case by simp
next
  case (Cons c cs)
  then show ?case
    using str_split_not_Nil [of sep cs]
    by (cases "str_split sep cs") auto
qed

lemma several_pieces_iff: "2 \<le> length (str_split sep s) \<longleftrightarrow> sep \<in> set s"
proof -
  have "count_list s sep \<noteq> 0 \<longleftrightarrow> sep \<in> set s"
    by (simp add: count_list_0_iff)
  then show ?thesis
    by (simp add: length_str_split Suc_le_eq)
qed

lemma col_attributes_no_space: "ty \<in> set (col_attributes df) \<Longrightarrow> CHR '' '' \<notin> set ty"
  by (auto simp: col_attributes_def dest: str_split_no_sep)

text \<open>
  C10. In \<open>get_dummies\<close> every indicator column compares the whole personality string
  with one label: its value is 1 exactly when the personality string is that label,
  and a row whose personality string has two or more space-separated labels has 0 in
  every indicator column.
\<close>

theorem get_dummies_whole_string_equality:
  assumes "get_dummies df col_name = Inr out"
    and "(r, dummies) \<in> set out"
    and "(ty, v) \<in> set dummies"
  shows "(v = 1 \<or> v = 0) \<and> (v = 1 \<longleftrightarrow> personality r = ty)
    \<and> (2 \<le> length (str_split CHR '' '' (personality r)) \<longrightarrow> (\<forall>(ty', v') \<in> set dummies. v' = 0))"
proof -
  from assms(1,2) have nonempty: "df \<noteq> []"
    by (auto simp: get_dummies_def split: if_splits)
  with assms(1) have name: "col_name = ''personality''"
    and out: "out = map (\<lambda>r. (r, map (\<lambda>ty. (ty, col_expr col_name ty r)) (col_attributes df))) df"
    by (auto simp: get_dummies_def split: if_splits)
  from assms(2) out have dummies:
    "dummies = map (\<lambda>ty. (ty, col_expr col_name ty r)) (col_attributes df)"
    by auto
  have val: "v' = (if personality r = ty' then 1 else 0) \<and> ty' \<in> set (col_attributes df)"
    if "(ty', v') \<in> set dummies" for ty' v'
    using that dummies name by (auto simp: col_expr_def column_def)
  have zero: "v' = 0" if "(ty', v') \<in> set dummies"
    and many: "2 \<le> length (str_split CHR '' '' (personality r))" for ty' v'
  proof -
    from many have "CHR '' '' \<in> set (personality r)"
      by (simp only: several_pieces_iff)
    moreover have "CHR '' '' \<notin> set ty'"
      using val [OF that(1)] col_attributes_no_space by blast
    ultimately have "personality r \<noteq> ty'" by auto
    with val [OF that(1)] show ?thesis by simp
  qed
  from val [OF assms(3)] zero show ?thesis by auto
qed

theorem get_dummies_whole_string_equality_witness:
  "get_dummies [session_1, session_20] ''personality'' =
     Inr [(session_1, [(''traditional'', 1), (''quiet'', 0), (''creative'', 0)]),
          (session_20, [(''traditional'', 0), (''quiet'', 0), (''creative'', 0)])]
   \<and> 2 \<le> length (str_split CHR '' '' (personality session_20))
   \<and> list_all (\<lambda>(ty, v). v = 0) [(''traditional'', 0), (''quiet'', 0), (''creative'', 0::int)]
   \<and> personality session_1 = ''traditional''"
proof -
  have run: "get_dummies [session_1, session_20] ''personality'' =
     Inr [(session_1, [(''traditional'', 1), (''quiet'', 0), (''creative'', 0)]),
          (session_20, [(''traditional'', 0), (''quiet'', 0), (''creative'', 0)])]"
    by (simp add: get_dummies_def col_attributes_def col_expr_def column_def
        session_1_def session_20_def)
  have many: "2 \<le> length (str_split CHR '' '' (personality session_20))"
    by (simp add: session_20_def)
  have row20: "(session_20, [(''traditional'', 0), (''quiet'', 0), (''creative'', 0)])
      \<in> set [(session_1, [(''traditional'', 1), (''quiet'', 0), (''creative'', 0)]),
        (session_20, [(''traditional'', 0), (''quiet'', 0), (''creative'', 0::int)])]"
    by simp
  have row1: "(session_1, [(''traditional'', 1), (''quiet'', 0), (''creative'', 0)])
      \<in> set [(session_1, [(''traditional'', 1), (''quiet'', 0), (''creative'', 0)]),
        (session_20, [(''traditional'', 0), (''quiet'', 0), (''creative'', 0::int)])]"
    by simp
  have col20: "(''quiet'', 0) \<in> set [(''traditional'', 0), (''quiet'', 0), (''creative'', 0::int)]"
    by simp
  have col1: "(''traditional'', 1) \<in> set [(''traditional'', 1), (''quiet'', 0), (''creative'', 0::int)]"
    by simp
  from get_dummies_whole_string_equality [OF run row20 col20]
    get_dummies_whole_string_equality [OF run row1 col1] run many
  show ?thesis by simp
qed

section \<open>Properties of the ranking\<close>

lemma argsort_mset: "mset (argsort a) = mset [0..<length a]"
  by (simp add: argsort_def)

lemma argsort_set: "set (argsort a) = {0..<length a}"
  by (simp add: argsort_def)

lemma argsort_distinct: "distinct (argsort a)"
  by (simp add: argsort_def)

lemma argsort_length: "length (argsort a) = length a"
  by (simp add: argsort_def)

lemma rev_argsort_descending: "sorted_wrt (\<lambda>i j. a ! j \<le> a ! i) (rev (argsort a))"
proof -
  have "sorted (map (\<lambda>i. a ! i) (argsort a))"
    by (simp add: argsort_def)
  then show ?thesis
    by (simp add: sorted_wrt_rev sorted_wrt_map)
qed

lemma prefix_dominates:
  assumes "sorted_wrt P xs" and "distinct xs"
    and "i \<in> set (take n xs)" and "j \<in> set xs" and "j \<notin> set (take n xs)"
  shows "P i j"
proof -
  have "xs = take n xs @ drop n xs" by simp
  with assms(4,5) have "j \<in> set (drop n xs)"
    by (metis Un_iff set_append)
  moreover from assms(1) have "sorted_wrt P (take n xs @ drop n xs)" by simp
  ultimately show ?thesis
    using assms(3) unfolding sorted_wrt_append by blast
qed

text \<open>
  C2, as the claim states it, fails: asked for the three items most similar to item 0
  of \<open>example_similarity\<close>, the expression returns item 0 itself first, and lists
  item 2 before item 1 although both have similarity 1/2. The claim asks for the
  items 1, 2, 3 in this order.
\<close>

theorem most_similar_includes_query_item:
  "most_similar example_similarity 0 3 = Inr [0, 2, 1]
   \<and> most_similar example_similarity 0 3 \<noteq> Inr [1, 2, 3]"
  by (simp add: most_similar_def getitem_def slice_to_def argsort_def
      example_similarity_def sort_key_def upt_rec)

text \<open>
  C2, amended. For a valid item identifier \<open>q\<close> and \<open>k \<ge> 0\<close>, the query returns
  \<open>min k N\<close> distinct positions of row \<open>q\<close> (\<open>N\<close> its length), ordered by
  non-increasing similarity, and every position left out has a similarity no greater
  than every position returned. The item \<open>q\<close> is a position like any other, and
  nothing is said on the order among equal similarities.
\<close>

theorem most_similar_descending_prefix:
  assumes "0 \<le> q" and "q < int (length sim)" and "0 \<le> k"
  shows "\<exists>ids. most_similar sim q k = Inr ids
     \<and> length ids = min (nat k) (length (sim ! nat q))
     \<and> distinct ids
     \<and> set ids \<subseteq> {0..<length (sim ! nat q)}
     \<and> sorted_wrt (\<lambda>i j. sim ! nat q ! j \<le> sim ! nat q ! i) ids
     \<and> (\<forall>i \<in> set ids. \<forall>j < length (sim ! nat q).
           j \<notin> set ids \<longrightarrow> sim ! nat q ! j \<le> sim ! nat q ! i)"
proof -
  let ?row = "sim ! nat q"
  let ?all = "rev (argsort ?row)"
  let ?ids = "take (nat k) ?all"
  have run: "most_similar sim q k = Inr ?ids"
    using assms by (simp add: most_similar_def getitem_def slice_to_def)
  have desc: "sorted_wrt (\<lambda>i j. ?row ! j \<le> ?row ! i) ?all"
    by (rule rev_argsort_descending)
  have dist: "distinct ?all"
    by (simp add: argsort_distinct)
  have all: "set ?all = {0..<length ?row}"
    by (simp add: argsort_set)
  have len: "length ?ids = min (nat k) (length ?row)"
    by (simp add: argsort_length min.commute)
  have sub: "set ?ids \<subseteq> {0..<length ?row}"
    using set_take_subset [of "nat k" ?all] all by blast
  have dom: "?row ! j \<le> ?row ! i"
    if "i \<in> set ?ids" "j < length ?row" "j \<notin> set ?ids" for i j
  proof -
    from that(2) all have "j \<in> set ?all" by simp
    from prefix_dominates [OF desc dist that(1) this that(3)] show ?thesis .
  qed
  from run len dist desc sub dom show ?thesis
    by (intro exI [of _ ?ids]) (simp add: sorted_wrt_take)
qed

theorem most_similar_descending_prefix_witness:
  "(0::int) \<le> 1 \<and> 1 < int (length example_similarity) \<and> (0::int) \<le> 2
   \<and> most_similar example_similarity 1 2 = Inr [1, 2]
   \<and> (\<exists>ids. most_similar example_similarity 1 2 = Inr ids
       \<and> length ids = min (nat 2) (length (example_similarity ! nat 1))
       \<and> distinct ids
       \<and> set ids \<subseteq> {0..<length (example_similarity ! nat 1)}
       \<and> sorted_wrt (\<lambda>i j. example_similarity ! nat 1 ! j \<le> example_similarity ! nat 1 ! i) ids
       \<and> (\<forall>i \<in> set ids. \<forall>j < length (example_similarity ! nat 1).
             j \<notin> set ids \<longrightarrow> example_similarity ! nat 1 ! j \<le> example_similarity ! nat 1 ! i))"
proof -
  have q0: "(0::int) \<le> 1" and k0: "(0::int) \<le> 2" by simp_all
  have qN: "1 < int (length example_similarity)"
    by (simp add: example_similarity_def)
  have run: "most_similar example_similarity 1 2 = Inr [1, 2]"
    by (simp add: most_similar_def getitem_def slice_to_def argsort_def
        example_similarity_def sort_key_def upt_rec)
  from most_similar_descending_prefix [OF q0 qN k0] q0 k0 qN run
  show ?thesis by (intro conjI)
qed

text \<open>
  C8, as the claim states it, fails: item 0 of \<open>example_distinct\<close> has two candidates,
  the items 1 and 2, and asked for three items the expression returns three, item 0
  itself first, where the claim asks for the two candidates.
\<close>

theorem most_similar_large_k_includes_query_item:
  "most_similar example_distinct 0 3 = Inr [0, 1, 2]
   \<and> most_similar example_distinct 0 3 \<noteq> Inr [1, 2]"
  by (simp add: most_similar_def getitem_def slice_to_def argsort_def
      example_distinct_def sort_key_def upt_rec)

text \<open>
  C8, amended. For a valid query item \<open>q\<close>, \<open>k = 0\<close> gives the empty sequence, and
  every \<open>k\<close> that is at least the number \<open>N\<close> of entries of the row gives all \<open>N\<close>
  positions of the row, ordered by non-increasing similarity; the item \<open>q\<close> is one of
  them whenever the row has an entry for it.
\<close>

theorem most_similar_zero_and_large_k:
  assumes "0 \<le> q" and "q < int (length sim)"
  shows "most_similar sim q 0 = Inr []
     \<and> (\<forall>k. int (length (sim ! nat q)) \<le> k \<longrightarrow>
          (\<exists>ids. most_similar sim q k = Inr ids
             \<and> mset ids = mset [0..<length (sim ! nat q)]
             \<and> sorted_wrt (\<lambda>i j. sim ! nat q ! j \<le> sim ! nat q ! i) ids
             \<and> (nat q < length (sim ! nat q) \<longrightarrow> nat q \<in> set ids)))"
proof -
  let ?row = "sim ! nat q"
  have zero: "most_similar sim q 0 = Inr []"
    using assms by (simp add: most_similar_def getitem_def slice_to_def)
  have large: "\<exists>ids. most_similar sim q k = Inr ids
             \<and> mset ids = mset [0..<length ?row]
             \<and> sorted_wrt (\<lambda>i j. ?row ! j \<le> ?row ! i) ids
             \<and> (nat q < length ?row \<longrightarrow> nat q \<in> set ids)"
    if "int (length ?row) \<le> k" for k
  proof -
    from that have k: "0 \<le> k" "length (rev (argsort ?row)) \<le> nat k"
      by (simp_all add: argsort_length)
    then have run: "most_similar sim q k = Inr (rev (argsort ?row))"
      using assms by (simp add: most_similar_def getitem_def slice_to_def)
    have member: "nat q \<in> set (rev (argsort ?row))" if "nat q < length ?row"
      using that by (simp add: argsort_set)
    from run member show ?thesis
      using rev_argsort_descending [of ?row] argsort_mset [of ?row] by simp
  qed
  from zero large show ?thesis by blast
qed

theorem most_similar_zero_and_large_k_witness:
  "(0::int) \<le> 3 \<and> 3 < int (length example_similarity)
   \<and> int (length (example_similarity ! nat 3)) \<le> 10
   \<and> nat 3 < length (example_similarity ! nat 3)
   \<and> most_similar example_similarity 3 0 = Inr []
   \<and> most_similar example_similarity 3 10 = Inr [3, 2, 1, 0]
   \<and> (\<exists>ids. most_similar example_similarity 3 10 = Inr ids
        \<and> mset ids = mset [0..<length (example_similarity ! nat 3)]
        \<and> sorted_wrt (\<lambda>i j. example_similarity ! nat 3 ! j \<le> example_similarity ! nat 3 ! i) ids
        \<and> (nat 3 < length (example_similarity ! nat 3) \<longrightarrow> nat 3 \<in> set ids))"
proof -
  have q0: "(0::int) \<le> 3" by simp
  have qN: "3 < int (length example_similarity)"
    by (simp add: example_similarity_def)
  have big: "int (length (example_similarity ! nat 3)) \<le> 10"
    by (simp add: example_similarity_def)
  have entry: "nat 3 < length (example_similarity ! nat 3)"
    by (simp add: example_similarity_def)
  have run: "most_similar example_similarity 3 10 = Inr [3, 2, 1, 0]"
    by (simp add: most_similar_def getitem_def slice_to_def argsort_def
        example_similarity_def sort_key_def upt_rec)
  note T = most_similar_zero_and_large_k [OF q0 qN]
  from T have zero: "most_similar example_similarity 3 0 = Inr []"
    by (rule conjunct1)
  from T [THEN conjunct2, THEN spec, THEN mp, OF big] q0 qN big entry zero run
  show ?thesis by (intro conjI)
qed

section \<open>Properties of the classifier\<close>

lemma fit_tf_idf_Inr:
  assumes "fit_tf_idf spark tokens_df self df tokens_col output_col = (self1, Inr norm_df)"
  shows "\<exists>cv tf_df idf idf_df.
      CountVectorizer_fit spark tokens_col ''tf'' df = Inr cv
    \<and> CountVectorizer_transform spark cv tokens_df = Inr tf_df
    \<and> IDF_fit spark ''tf'' ''idf'' tf_df = Inr idf
    \<and> IDF_transform spark idf tf_df = Inr idf_df
    \<and> Normalizer_transform spark (Normalizer spark ''idf'' output_col) idf_df = Inr norm_df
    \<and> self1 = self\<lparr>count_vectorizer := Some cv, idfModel := Some idf,
                    normalizer := Some (Normalizer spark ''idf'' output_col)\<rparr>"
  using assms unfolding fit_tf_idf_def Let_def
  by (auto split: sum.splits)

lemma fit_tf_idf_cong:
  assumes "CountVectorizer_fit spark tokens_col ''tf'' df' = CountVectorizer_fit spark tokens_col ''tf'' df"
  shows "fit_tf_idf spark tokens_df self df' tokens_col output_col
       = fit_tf_idf spark tokens_df self df tokens_col output_col"
  unfolding fit_tf_idf_def using assms by simp

lemma fit_matrix_similarity_None:
  assumes "fit_matrix_similarity spark self df id_col embedding_col = (self', None)"
  shows "id_col = ''id'' \<and> embedding_col = ''norm'' \<and> (\<exists>selected rows mat mat_t dot arr.
      select spark [id_col, embedding_col] df = Inr selected
    \<and> rdd_map_IndexedRow spark ''id'' ''norm'' selected = Inr rows
    \<and> toBlockMatrix spark rows = Inr mat
    \<and> transpose spark mat = Inr mat_t
    \<and> multiply spark mat mat_t = Inr dot
    \<and> toArray spark dot = Inr arr
    \<and> self' = self\<lparr>cosine_similarity := Some arr\<rparr>)"
  using assms unfolding fit_matrix_similarity_def
  by (auto split: sum.splits if_splits)

lemma fit_matrix_similarity_raises:
  assumes "fit_matrix_similarity spark self df id_col embedding_col = (self', Some e)"
  shows "self' = self"
  using assms unfolding fit_matrix_similarity_def
  by (auto split: sum.splits if_splits)

lemma fit_tf_idf_keeps_matrix:
  "cosine_similarity (fst (fit_tf_idf spark tokens_df self df tokens_col output_col))
     = cosine_similarity self"
  unfolding fit_tf_idf_def Let_def by (auto split: sum.splits)

lemma fit_matrix_similarity_other_id_col:
  assumes "id_col \<noteq> ''id''"
  shows "\<exists>e. fit_matrix_similarity spark self df id_col embedding_col = (self, Some e)"
  using assms unfolding fit_matrix_similarity_def
  by (auto split: sum.splits)

text \<open>
  With an identifier column of any other name than \<open>id\<close> the call raises and leaves
  the matrix of the object as it was.
\<close>

lemma fit_other_id_col_raises:
  assumes "id_col \<noteq> ''id''"
  shows "\<exists>self' e. fit spark tokens_df self df tokens_col id_col = (self', Some e)
     \<and> cosine_similarity self' = cosine_similarity self"
proof -
  obtain self1 r where step: "fit_tf_idf spark tokens_df self df tokens_col ''norm'' = (self1, r)"
    by (cases "fit_tf_idf spark tokens_df self df tokens_col ''norm''")
  have keep: "cosine_similarity self1 = cosine_similarity self"
    using fit_tf_idf_keeps_matrix [of spark tokens_df self df tokens_col "''norm''"] step by simp
  show ?thesis
  proof (cases r)
    case (Inl e)
    with step keep show ?thesis by (simp add: fit_def)
  next
    case (Inr norm_df)
    from fit_matrix_similarity_other_id_col [OF assms, of spark self1 norm_df "''norm''"]
    obtain e where "fit_matrix_similarity spark self1 norm_df id_col ''norm'' = (self1, Some e)"
      by blast
    with step Inr keep show ?thesis by (simp add: fit_def)
  qed
qed

text \<open>
  C3. When \<open>fit\<close> returns, the count vectorizer fitted on the argument \<open>df\<close> has been
  applied to the module's \<open>tokens_df\<close>, and the similarity matrix is the one of the
  rows of \<open>tokens_df\<close> carried through the weighting, the normalisation and the
  product: \<open>df\<close> enters the result through the fitted model only, so every argument
  with the same fitted model gives the same object, whatever its rows are.
\<close>

theorem fit_uses_global_tokens_df:
  assumes "fit spark tokens_df self df tokens_col id_col = (self', None)"
  shows "id_col = ''id''
     \<and> (\<exists>cv tf_df idf idf_df norm_df selected rows mat mat_t dot arr.
           CountVectorizer_fit spark tokens_col ''tf'' df = Inr cv
         \<and> CountVectorizer_transform spark cv tokens_df = Inr tf_df
         \<and> IDF_fit spark ''tf'' ''idf'' tf_df = Inr idf
         \<and> IDF_transform spark idf tf_df = Inr idf_df
         \<and> Normalizer_transform spark (Normalizer spark ''idf'' ''norm'') idf_df = Inr norm_df
         \<and> select spark [''id'', ''norm''] norm_df = Inr selected
         \<and> rdd_map_IndexedRow spark ''id'' ''norm'' selected = Inr rows
         \<and> toBlockMatrix spark rows = Inr mat
         \<and> transpose spark mat = Inr mat_t
         \<and> multiply spark mat mat_t = Inr dot
         \<and> toArray spark dot = Inr arr
         \<and> cosine_similarity self' = Some arr)
     \<and> (\<forall>df'. CountVectorizer_fit spark tokens_col ''tf'' df'
                 = CountVectorizer_fit spark tokens_col ''tf'' df
           \<longrightarrow> fit spark tokens_df self df' tokens_col id_col = (self', None))"
proof -
  obtain self1 r where step: "fit_tf_idf spark tokens_df self df tokens_col ''norm'' = (self1, r)"
    by (cases "fit_tf_idf spark tokens_df self df tokens_col ''norm''")
  from assms step obtain norm_df where r: "r = Inr norm_df"
    by (cases r) (simp_all add: fit_def)
  from assms step r
  have matrix: "fit_matrix_similarity spark self1 norm_df id_col ''norm'' = (self', None)"
    by (simp add: fit_def)
  from fit_tf_idf_Inr [OF step [unfolded r]]
  obtain cv tf_df idf idf_df where first:
    "CountVectorizer_fit spark tokens_col ''tf'' df = Inr cv"
    "CountVectorizer_transform spark cv tokens_df = Inr tf_df"
    "IDF_fit spark ''tf'' ''idf'' tf_df = Inr idf"
    "IDF_transform spark idf tf_df = Inr idf_df"
    "Normalizer_transform spark (Normalizer spark ''idf'' ''norm'') idf_df = Inr norm_df"
    by blast
  from fit_matrix_similarity_None [OF matrix]
  obtain selected rows mat mat_t dot arr where second:
    "id_col = ''id''"
    "select spark [id_col, ''norm''] norm_df = Inr selected"
    "rdd_map_IndexedRow spark ''id'' ''norm'' selected = Inr rows"
    "toBlockMatrix spark rows = Inr mat"
    "transpose spark mat = Inr mat_t"
    "multiply spark mat mat_t = Inr dot"
    "toArray spark dot = Inr arr"
    "self' = self1\<lparr>cosine_similarity := Some arr\<rparr>"
    by blast
  have same: "fit spark tokens_df self df' tokens_col id_col = (self', None)"
    if "CountVectorizer_fit spark tokens_col ''tf'' df'
          = CountVectorizer_fit spark tokens_col ''tf'' df" for df'
  proof -
    have "fit spark tokens_df self df' tokens_col id_col
        = fit spark tokens_df self df tokens_col id_col"
      unfolding fit_def by (simp only: fit_tf_idf_cong [OF that])
    with assms show ?thesis by simp
  qed
  have stages: "\<exists>cv tf_df idf idf_df norm_df selected rows mat mat_t dot arr.
           CountVectorizer_fit spark tokens_col ''tf'' df = Inr cv
         \<and> CountVectorizer_transform spark cv tokens_df = Inr tf_df
         \<and> IDF_fit spark ''tf'' ''idf'' tf_df = Inr idf
         \<and> IDF_transform spark idf tf_df = Inr idf_df
         \<and> Normalizer_transform spark (Normalizer spark ''idf'' ''norm'') idf_df = Inr norm_df
         \<and> select spark [''id'', ''norm''] norm_df = Inr selected
         \<and> rdd_map_IndexedRow spark ''id'' ''norm'' selected = Inr rows
         \<and> toBlockMatrix spark rows = Inr mat
         \<and> transpose spark mat = Inr mat_t
         \<and> multiply spark mat mat_t = Inr dot
         \<and> toArray spark dot = Inr arr
         \<and> cosine_similarity self' = Some arr"
    using first second by (intro exI [of _ cv] exI [of _ tf_df] exI [of _ idf] exI [of _ idf_df]
        exI [of _ norm_df] exI [of _ selected] exI [of _ rows] exI [of _ mat] exI [of _ mat_t]
        exI [of _ dot] exI [of _ arr]) simp
  from second(1) stages same show ?thesis by blast
qed

lemma stub_vocabulary:
  "CountVectorizer_fit stub_spark ''tokens'' ''tf'' df_b
     = CountVectorizer_fit stub_spark ''tokens'' ''tf'' df_a"
  by code_simp

lemma stub_run:
  "fit stub_spark df_g init df_a ''tokens'' ''id'' =
     (\<lparr>normalizer = Some (), cosine_similarity = Some [[1, 0], [0, 1]],
       count_vectorizer = Some [''Pizza'', ''Italian''], idfModel = Some ()\<rparr>, None)"
  by code_simp

theorem fit_uses_global_tokens_df_witness:
  "fit stub_spark df_g init df_a ''tokens'' ''id'' =
     (\<lparr>normalizer = Some (), cosine_similarity = Some [[1, 0], [0, 1]],
       count_vectorizer = Some [''Pizza'', ''Italian''], idfModel = Some ()\<rparr>, None)
   \<and> length df_a = 1 \<and> length df_g = 2
   \<and> df_b \<noteq> df_a
   \<and> CountVectorizer_fit stub_spark ''tokens'' ''tf'' df_b
       = CountVectorizer_fit stub_spark ''tokens'' ''tf'' df_a
   \<and> fit stub_spark df_g init df_b ''tokens'' ''id'' =
     (\<lparr>normalizer = Some (), cosine_similarity = Some [[1, 0], [0, 1]],
       count_vectorizer = Some [''Pizza'', ''Italian''], idfModel = Some ()\<rparr>, None)"
proof -
  have frames: "length df_a = 1 \<and> length df_g = 2 \<and> df_b \<noteq> df_a"
    by (simp add: df_a_def df_b_def df_g_def)
  note T = fit_uses_global_tokens_df [OF stub_run]
  have other: "fit stub_spark df_g init df_b ''tokens'' ''id'' =
     (\<lparr>normalizer = Some (), cosine_similarity = Some [[1, 0], [0, 1]],
       count_vectorizer = Some [''Pizza'', ''Italian''], idfModel = Some ()\<rparr>, None)"
    by (rule T [THEN conjunct2, THEN conjunct2, THEN spec, THEN mp, OF stub_vocabulary])
  from stub_run frames stub_vocabulary other show ?thesis by (intro conjI) simp_all
qed

end
